theory Spec2Isabelle
  imports Main "HOL-Library.AList"
begin

section \<open>Data model\<close>

text \<open>
  The repository holds a Socket.IO server and a React client. The server keeps, per form,
  the sessions of the connected sockets (\<^verbatim>\<open>activeSessions\<close>, a JavaScript
  \<^verbatim>\<open>Map\<close> of \<^verbatim>\<open>Map\<close>s) and relays events to the Socket.IO room
  \<^verbatim>\<open>form-<formId>\<close>; the lock table and the typing indicators live only in the
  React state of each client (\<^verbatim>\<open>lockedFields\<close>, \<^verbatim>\<open>typingUsers\<close>).

  A JavaScript \<^verbatim>\<open>Map\<close> keeps insertion order; \<^verbatim>\<open>set\<close> on a present key replaces the
  value in place and on a new key appends, \<^verbatim>\<open>delete\<close> removes the key. It is modelled as
  an association list with \<^const>\<open>AList.update\<close>, \<^const>\<open>AList.delete\<close> and
  \<^const>\<open>map_of\<close>. Plain objects used as dictionaries are maps.
\<close>

type_synonym socketId = string
type_synonym formId = string
type_synonym fieldId = string
type_synonym timestamp = nat

record session =
  userId :: string
  userName :: string
  joinedAt :: timestamp
  socketId :: socketId

record field =
  f_id :: fieldId
  f_label :: string
  f_type :: string
  f_options :: "string list"

record form =
  title :: string
  code :: string
  is_active :: bool
  form_fields :: "field list"
  admin_id :: string

record response =
  data :: "fieldId \<rightharpoonup> string"
  contributors :: "string list"
  last_updated :: timestamp

text \<open>
  The PostgreSQL tables \<^verbatim>\<open>forms\<close> and \<^verbatim>\<open>form_responses\<close>, keyed by form id.
  \<open>up\<close> is false when a query throws, which sends a handler into its \<^verbatim>\<open>catch\<close>.
\<close>

record db =
  up :: bool
  forms :: "formId \<rightharpoonup> form"
  form_responses :: "formId \<rightharpoonup> response"

type_synonym sessions = "(socketId \<times> session) list"

record server =
  pool :: db
  activeSessions :: "(formId \<times> sessions) list"
  rooms :: "string \<Rightarrow> socketId set"

subsection \<open>Payload values\<close>

text \<open>
  The \<^verbatim>\<open>value\<close> of an \<^verbatim>\<open>updateField\<close> payload. The client always sends a string;
  booleans, \<^verbatim>\<open>null\<close> and a missing value are kept since the server applies
  \<^verbatim>\<open>String(value)\<close> and \<^verbatim>\<open>Number(value)\<close> to whatever arrives. JSON numbers,
  arrays and objects are left out: their conversion to a string is floating-point
  formatting and \<^verbatim>\<open>ToPrimitive\<close>. What the sanitized value is, beyond where it is
  stored and to whom it is sent, is therefore not a subject of this theory.
\<close>

datatype jsval = JString string | JBoolean bool | JNull | JUndefined

fun String_js :: "jsval \<Rightarrow> string" where
  "String_js (JString s) = s"
| "String_js (JBoolean b) = (if b then ''true'' else ''false'')"
| "String_js JNull = ''null''"
| "String_js JUndefined = ''undefined''"

text \<open>
  \<^verbatim>\<open>String(Number(value) || 0)\<close>. Parsing a string as a double and printing it back is
  JavaScript's own code, taken as the parameter \<open>N\<close>: \<open>N s = Some d\<close> when
  \<^verbatim>\<open>Number(s)\<close> is neither \<^verbatim>\<open>NaN\<close> nor zero and prints as \<open>d\<close>, and \<open>N s = None\<close> when
  it is \<^verbatim>\<open>NaN\<close> or zero, so that \<^verbatim>\<open>|| 0\<close> takes over and \<^verbatim>\<open>String(0)\<close> is printed.
  \<^verbatim>\<open>Number(true)\<close> is 1; \<^verbatim>\<open>Number(false)\<close> and \<^verbatim>\<open>Number(null)\<close> are 0;
  \<^verbatim>\<open>Number(undefined)\<close> is \<^verbatim>\<open>NaN\<close>.
\<close>

fun String_Number_or_0 :: "(string \<Rightarrow> string option) \<Rightarrow> jsval \<Rightarrow> string" where
  "String_Number_or_0 N (JString s) = (case N s of None \<Rightarrow> ''0'' | Some d \<Rightarrow> d)"
| "String_Number_or_0 N (JBoolean b) = (if b then ''1'' else ''0'')"
| "String_Number_or_0 N JNull = ''0''"
| "String_Number_or_0 N JUndefined = ''0''"

text \<open>
  Strings are lists of code units below 256 (Latin-1). \<^verbatim>\<open>toLowerCase\<close> maps A-Z and the
  accented capitals U+00C0-U+00DE (but not the multiplication sign U+00D7) 32 places up;
  \<^verbatim>\<open>trim\<close> strips tab, line feed, vertical tab, form feed, carriage return, space and
  the no-break space from both ends.
\<close>

definition toLowerCase_char :: "char \<Rightarrow> char" where
  "toLowerCase_char c =
     (let n = (of_char c :: nat)
      in if (65 \<le> n \<and> n \<le> 90) \<or> (192 \<le> n \<and> n \<le> 214) \<or> (216 \<le> n \<and> n \<le> 222)
         then char_of (n + 32) else c)"

definition toLowerCase :: "string \<Rightarrow> string" where
  "toLowerCase s = map toLowerCase_char s"

definition isWhiteSpace :: "char \<Rightarrow> bool" where
  "isWhiteSpace c = ((of_char c :: nat) \<in> {9, 10, 11, 12, 13, 32, 160})"

definition trim :: "string \<Rightarrow> string" where
  "trim s = rev (dropWhile isWhiteSpace (rev (dropWhile isWhiteSpace s)))"

text \<open>\<^verbatim>\<open>s.substring(0, n)\<close> for \<open>n \<ge> 0\<close>.\<close>

definition substring_0 :: "nat \<Rightarrow> string \<Rightarrow> string" where
  "substring_0 n s = take n s"

text \<open>The \<^verbatim>\<open>sanitizedValue\<close> of the \<^verbatim>\<open>updateField\<close> handler, by field type.\<close>

definition sanitizeValue :: "(string \<Rightarrow> string option) \<Rightarrow> string \<Rightarrow> jsval \<Rightarrow> string" where
  "sanitizeValue N ty v =
     (if ty = ''number'' then (if v = JString [] then [] else String_Number_or_0 N v)
      else if ty = ''email'' then trim (toLowerCase (String_js v))
      else if ty = ''checkbox'' then (if v = JString ''true'' then ''true'' else ''false'')
      else substring_0 10000 (String_js v))"

section \<open>Events\<close>

text \<open>Events the server emits, with their payloads.\<close>

datatype event =
    UserJoined string string "session list"
  | UserLeft string string "session list"
  | ActiveUsers "session list"
  | FieldUpdated fieldId string string string timestamp
  | FieldLocked fieldId string string
  | FieldUnlocked fieldId string
  | UnlockAllFieldsForUser string
  | UserTypingUpdate fieldId string bool
  | FormStructureUpdated "field list"
  | Error string

text \<open>
  Where an emit goes: \<^verbatim>\<open>socket.emit\<close> reaches the socket itself, \<^verbatim>\<open>io.to(room).emit\<close>
  every socket in the room, \<^verbatim>\<open>socket.to(room).emit\<close> every socket in the room but
  the sender.
\<close>

datatype target = ToSocket socketId | ToRoom string | ToRoomExcept string socketId

type_synonym emit = "target \<times> event"

fun recipients :: "(string \<Rightarrow> socketId set) \<Rightarrow> target \<Rightarrow> socketId set" where
  "recipients rs (ToSocket s) = {s}"
| "recipients rs (ToRoom r) = rs r"
| "recipients rs (ToRoomExcept r s) = rs r - {s}"

definition room :: "formId \<Rightarrow> string" where
  "room formId = ''form-'' @ formId"

text \<open>The events one socket receives from a list of emits, in order.\<close>

definition received :: "(string \<Rightarrow> socketId set) \<Rightarrow> emit list \<Rightarrow> socketId \<Rightarrow> event list" where
  "received rs es s = map snd (filter (\<lambda>e. s \<in> recipients rs (fst e)) es)"

text \<open>What a client sends.\<close>

datatype request =
    JoinForm formId string string
  | UpdateField formId fieldId jsval string string
  | LockField formId fieldId string string
  | UnlockField formId fieldId string
  | UserTyping formId fieldId string bool
  | LeaveForm formId string
  | Disconnect

section \<open>Server handlers\<close>

text \<open>\<^verbatim>\<open>[...sessions.values()]\<close>.\<close>

definition values_of :: "sessions \<Rightarrow> session list" where
  "values_of ss = map snd ss"

definition sessions_of :: "server \<Rightarrow> formId \<Rightarrow> sessions" where
  "sessions_of st formId = (case map_of (activeSessions st) formId of None \<Rightarrow> [] | Some ss \<Rightarrow> ss)"

definition join_error :: string where
  "join_error = ''Form not found or inactive. Cannot join.''"

definition on_joinForm ::
  "timestamp \<Rightarrow> server \<Rightarrow> socketId \<Rightarrow> formId \<Rightarrow> string \<Rightarrow> string \<Rightarrow> server \<times> emit list" where
  "on_joinForm now st sock formId uid uname =
     (if \<not> up (pool st) then (st, [(ToSocket sock, Error ''Failed to join form.'')])
      else case forms (pool st) formId of
        None \<Rightarrow> (st, [(ToSocket sock, Error join_error)])
      | Some form \<Rightarrow>
          if \<not> is_active form then (st, [(ToSocket sock, Error join_error)])
          else
            let ss = AList.update sock
                       \<lparr>userId = uid, userName = uname, joinedAt = now, socketId = sock\<rparr>
                       (sessions_of st formId);
                users = values_of ss
            in (st\<lparr>activeSessions := AList.update formId ss (activeSessions st),
                    rooms := (rooms st)(room formId := insert sock (rooms st (room formId)))\<rparr>,
                [(ToRoomExcept (room formId) sock, UserJoined uid uname users),
                 (ToSocket sock, ActiveUsers users)]))"

definition update_error :: string where
  "update_error = ''Form not found or inactive. Cannot update.''"

definition field_unknown :: string where
  "field_unknown = ''Field not found in form definition.''"

definition on_updateField ::
  "(string \<Rightarrow> string option) \<Rightarrow> timestamp \<Rightarrow> server \<Rightarrow> socketId \<Rightarrow> formId \<Rightarrow> fieldId \<Rightarrow> jsval
     \<Rightarrow> string \<Rightarrow> string \<Rightarrow> server \<times> emit list" where
  "on_updateField N now st sock formId fieldId v uid uname =
     (if \<not> up (pool st) then (st, [(ToSocket sock, Error ''Failed to update field.'')])
      else case forms (pool st) formId of
        None \<Rightarrow> (st, [(ToSocket sock, Error update_error)])
      | Some form \<Rightarrow>
          if \<not> is_active form then (st, [(ToSocket sock, Error update_error)])
          else case find (\<lambda>f. f_id f = fieldId) (form_fields form) of
            None \<Rightarrow> (st, [(ToSocket sock, Error field_unknown)])
          | Some field \<Rightarrow>
              let sanitizedValue = sanitizeValue N (f_type field) v;
                  currentResponse =
                    (case form_responses (pool st) formId of
                       None \<Rightarrow> \<lparr>data = [fieldId \<mapsto> sanitizedValue], contributors = [uname],
                                 last_updated = now\<rparr>
                     | Some r \<Rightarrow> \<lparr>data = (data r)(fieldId \<mapsto> sanitizedValue),
                                   contributors = (if uname \<in> set (contributors r)
                                                   then contributors r
                                                   else contributors r @ [uname]),
                                   last_updated = now\<rparr>)
              in (st\<lparr>pool := (pool st)\<lparr>form_responses :=
                        (form_responses (pool st))(formId \<mapsto> currentResponse)\<rparr>\<rparr>,
                  [(ToRoom (room formId),
                    FieldUpdated fieldId (f_label field) sanitizedValue uname
                      (last_updated currentResponse))]))"

definition on_lockField ::
  "server \<Rightarrow> socketId \<Rightarrow> formId \<Rightarrow> fieldId \<Rightarrow> string \<Rightarrow> string \<Rightarrow> server \<times> emit list" where
  "on_lockField st sock formId fieldId uid uname =
     (st, [(ToRoomExcept (room formId) sock, FieldLocked fieldId uname uid)])"

definition on_unlockField ::
  "server \<Rightarrow> socketId \<Rightarrow> formId \<Rightarrow> fieldId \<Rightarrow> string \<Rightarrow> server \<times> emit list" where
  "on_unlockField st sock formId fieldId uid =
     (st, [(ToRoomExcept (room formId) sock, FieldUnlocked fieldId uid)])"

definition on_userTyping ::
  "server \<Rightarrow> socketId \<Rightarrow> formId \<Rightarrow> fieldId \<Rightarrow> string \<Rightarrow> bool \<Rightarrow> server \<times> emit list" where
  "on_userTyping st sock formId fieldId uname isTyping =
     (st, [(ToRoomExcept (room formId) sock, UserTypingUpdate fieldId uname isTyping)])"

text \<open>
  The loop of the \<^verbatim>\<open>disconnect\<close> handler over \<^verbatim>\<open>activeSessions.entries()\<close>: where the
  socket has a session it is deleted, and \<^verbatim>\<open>userLeft\<close> with the sessions that remain and
  \<^verbatim>\<open>unlockAllFieldsForUser\<close> are emitted. The query for the form's title only feeds a
  log line, and its failure is caught, so both events are emitted whatever the database
  does. Each handler runs as one step.
\<close>

fun disconnect_loop :: "socketId \<Rightarrow> (formId \<times> sessions) list \<Rightarrow> (formId \<times> sessions) list \<times> emit list" where
  "disconnect_loop sock [] = ([], [])"
| "disconnect_loop sock ((formId, ss) # rest) =
     (let (rest', es) = disconnect_loop sock rest
      in case map_of ss sock of
           None \<Rightarrow> ((formId, ss) # rest', es)
         | Some user \<Rightarrow>
             (let ss' = AList.delete sock ss
              in ((formId, ss') # rest',
                  [(ToRoomExcept (room formId) sock,
                    UserLeft (userId user) (userName user) (values_of ss')),
                   (ToRoom (room formId), UnlockAllFieldsForUser (userId user))] @ es)))"

text \<open>
  Socket.IO takes a closing socket out of all its rooms before the \<^verbatim>\<open>disconnect\<close>
  listeners run.
\<close>

definition on_disconnect :: "server \<Rightarrow> socketId \<Rightarrow> server \<times> emit list" where
  "on_disconnect st sock =
     (let (as, es) = disconnect_loop sock (activeSessions st)
      in (st\<lparr>activeSessions := as, rooms := (\<lambda>r. rooms st r - {sock})\<rparr>, es))"

text \<open>
  One request handled by the server. The client emits \<^verbatim>\<open>leaveForm\<close>, for which the
  server registers no listener: the event is dropped.
\<close>

fun server_step ::
  "(string \<Rightarrow> string option) \<Rightarrow> timestamp \<Rightarrow> server \<Rightarrow> socketId \<Rightarrow> request \<Rightarrow> server \<times> emit list" where
  "server_step N now st sock (JoinForm formId uid uname) = on_joinForm now st sock formId uid uname"
| "server_step N now st sock (UpdateField formId fieldId v uid uname) =
     on_updateField N now st sock formId fieldId v uid uname"
| "server_step N now st sock (LockField formId fieldId uid uname) =
     on_lockField st sock formId fieldId uid uname"
| "server_step N now st sock (UnlockField formId fieldId uid) =
     on_unlockField st sock formId fieldId uid"
| "server_step N now st sock (UserTyping formId fieldId uname isTyping) =
     on_userTyping st sock formId fieldId uname isTyping"
| "server_step N now st sock (LeaveForm formId uid) = (st, [])"
| "server_step N now st sock Disconnect = on_disconnect st sock"

text \<open>
  \<^verbatim>\<open>validateField\<close> and the handler of \<^verbatim>\<open>PUT /api/forms/:formId/fields\<close>, which
  replaces a form's fields, drops the stored answers of fields that are gone and tells the
  room. It returns the HTTP status next to the new state and the emits. A missing
  \<^verbatim>\<open>id\<close>, \<^verbatim>\<open>label\<close> or \<^verbatim>\<open>adminId\<close> is the empty string, missing options the empty list.
\<close>

definition validTypes :: "string list" where
  "validTypes = [''text'', ''email'', ''number'', ''textarea'', ''select'', ''radio'',
                 ''checkbox'', ''date'', ''tel'', ''url'']"

definition validateField :: "field \<Rightarrow> bool" where
  "validateField fld =
     (if f_id fld = [] \<or> f_label fld = [] \<or> f_type fld \<notin> set validTypes then False
      else if (f_type fld = ''select'' \<or> f_type fld = ''radio'') \<and> f_options fld = [] then False
      else True)"

definition put_form_fields ::
  "timestamp \<Rightarrow> server \<Rightarrow> formId \<Rightarrow> field list \<Rightarrow> string \<Rightarrow> (server \<times> emit list) \<times> nat" where
  "put_form_fields now st formId fs adminId =
     (if adminId = [] then ((st, []), 400)
      else if \<not> up (pool st) then ((st, []), 500)
      else case forms (pool st) formId of
        None \<Rightarrow> ((st, []), 404)
      | Some form \<Rightarrow>
          if admin_id form \<noteq> adminId then ((st, []), 403)
          else if \<not> list_all validateField fs then ((st, []), 400)
          else
            let forms' = (forms (pool st))(formId \<mapsto> form\<lparr>form_fields := fs\<rparr>);
                responses' =
                  (case form_responses (pool st) formId of
                     None \<Rightarrow> form_responses (pool st)
                   | Some r \<Rightarrow> (form_responses (pool st))
                       (formId \<mapsto> r\<lparr>data := data r |` (f_id ` set fs), last_updated := now\<rparr>))
            in ((st\<lparr>pool := (pool st)\<lparr>forms := forms', form_responses := responses'\<rparr>\<rparr>,
                 [(ToRoom (room formId), FormStructureUpdated fs)]), 200))"

section \<open>Client handlers\<close>

text \<open>
  The React state a client keeps for the form it is in. \<^verbatim>\<open>lockedFields\<close> maps a field
  id to \<^verbatim>\<open>{lockedBy, userId}\<close>, \<^verbatim>\<open>typingUsers\<close> a field id to a user name;
  \<^verbatim>\<open>formResponse\<close> holds the field values and, under the key \<^verbatim>\<open>lastUpdated\<close>, a
  timestamp. The timer that hides the saved message again is not modelled.
\<close>

record lock =
  lockedBy :: string
  lockUserId :: string

datatype fval = Value string | Stamp timestamp

record client =
  currentForm :: "form option"
  formResponse :: "string \<rightharpoonup> fval"
  activeUsers :: "session list"
  lockedFields :: "fieldId \<rightharpoonup> lock"
  typingUsers :: "fieldId \<rightharpoonup> string"
  showSavedMessage :: bool

fun client_on :: "event \<Rightarrow> client \<Rightarrow> client" where
  "client_on (UserJoined uid uname users) c = c\<lparr>activeUsers := users\<rparr>"
| "client_on (UserLeft uid uname users) c = c\<lparr>activeUsers := users\<rparr>"
| "client_on (ActiveUsers users) c = c\<lparr>activeUsers := users\<rparr>"
| "client_on (FieldUpdated fieldId lbl v by ts) c =
     c\<lparr>formResponse := (formResponse c)(fieldId \<mapsto> Value v, ''lastUpdated'' \<mapsto> Stamp ts),
       showSavedMessage := True\<rparr>"
| "client_on (FieldLocked fieldId by uid) c =
     c\<lparr>lockedFields := (lockedFields c)(fieldId \<mapsto> \<lparr>lockedBy = by, lockUserId = uid\<rparr>)\<rparr>"
| "client_on (FieldUnlocked fieldId uid) c =
     c\<lparr>lockedFields := (lockedFields c)(fieldId := None)\<rparr>"
| "client_on (UnlockAllFieldsForUser uid) c =
     c\<lparr>lockedFields := (\<lambda>fieldId. case lockedFields c fieldId of
                                       None \<Rightarrow> None
                                     | Some l \<Rightarrow> if lockUserId l \<noteq> uid then Some l else None)\<rparr>"
| "client_on (UserTypingUpdate fieldId uname isTyping) c =
     (if isTyping then c\<lparr>typingUsers := (typingUsers c)(fieldId \<mapsto> uname)\<rparr>
      else c\<lparr>typingUsers := (typingUsers c)(fieldId := None)\<rparr>)"
| "client_on (FormStructureUpdated fs) c =
     (case currentForm c of
        None \<Rightarrow> c
      | Some form \<Rightarrow> c\<lparr>currentForm := Some (form\<lparr>form_fields := fs\<rparr>)\<rparr>)"
| "client_on (Error msg) c = c"

text \<open>A client handling the events it receives, in order.\<close>

fun client_run :: "event list \<Rightarrow> client \<Rightarrow> client" where
  "client_run [] c = c"
| "client_run (e # es) c = client_run es (client_on e c)"

section \<open>Server and clients together\<close>

record system =
  server :: server
  clients :: "socketId \<Rightarrow> client"

definition deliver ::
  "(string \<Rightarrow> socketId set) \<Rightarrow> emit list \<Rightarrow> (socketId \<Rightarrow> client) \<Rightarrow> socketId \<Rightarrow> client" where
  "deliver rs es cs = (\<lambda>s. client_run (received rs es s) (cs s))"

text \<open>
  One request: the server handles it, and every emit is delivered to the clients of the
  sockets that are in the target room once the handler is done.
\<close>

definition system_step ::
  "(string \<Rightarrow> string option) \<Rightarrow> timestamp \<Rightarrow> system \<Rightarrow> socketId \<Rightarrow> request \<Rightarrow> system" where
  "system_step N now sys sock req =
     (let (st', es) = server_step N now (server sys) sock req
      in \<lparr>server = st', clients = deliver (rooms st') es (clients sys)\<rparr>)"

definition system_put_form_fields ::
  "timestamp \<Rightarrow> system \<Rightarrow> formId \<Rightarrow> field list \<Rightarrow> string \<Rightarrow> system" where
  "system_put_form_fields now sys formId fs adminId =
     (let (st', es) = fst (put_form_fields now (server sys) formId fs adminId)
      in \<lparr>server = st', clients = deliver (rooms st') es (clients sys)\<rparr>)"



definition init_server :: "db \<Rightarrow> server" where
  "init_server d = \<lparr>pool = d, activeSessions = [], rooms = (\<lambda>r. {})\<rparr>"

definition init_client :: client where
  "init_client = \<lparr>currentForm = None, formResponse = Map.empty, activeUsers = [],
                  lockedFields = Map.empty, typingUsers = Map.empty, showSavedMessage = False\<rparr>"

text \<open>A server with no session yet, and every client in the same state.\<close>

definition init_system :: "db \<Rightarrow> client \<Rightarrow> system" where
  "init_system d c = \<lparr>server = init_server d, clients = (\<lambda>s. c)\<rparr>"

text \<open>A run of requests, each with the time it is handled at and the socket it comes from.\<close>

fun system_run ::
  "(string \<Rightarrow> string option) \<Rightarrow> system \<Rightarrow> (timestamp \<times> socketId \<times> request) list \<Rightarrow> system" where
  "system_run N sys [] = sys"
| "system_run N sys ((now, sock, req) # rest) = system_run N (system_step N now sys sock req) rest"

text \<open>The same system with the lock table of every client replaced.\<close>

definition with_locks :: "(socketId \<Rightarrow> fieldId \<rightharpoonup> lock) \<Rightarrow> system \<Rightarrow> system" where
  "with_locks L sys = sys\<lparr>clients := (\<lambda>s. (clients sys s)\<lparr>lockedFields := L s\<rparr>)\<rparr>"

fun is_fieldUpdated :: "event \<Rightarrow> bool" where
  "is_fieldUpdated (FieldUpdated fieldId lbl v by ts) = True"
| "is_fieldUpdated e = False"

text \<open>The lock, unlock and typing events.\<close>

fun is_relayed :: "event \<Rightarrow> bool" where
  "is_relayed (FieldLocked fieldId by uid) = True"
| "is_relayed (FieldUnlocked fieldId uid) = True"
| "is_relayed (UserTypingUpdate fieldId uname isTyping) = True"
| "is_relayed e = False"

text \<open>The form a lock, unlock or typing request names.\<close>

fun relayed_form :: "request \<Rightarrow> formId option" where
  "relayed_form (LockField formId fieldId uid uname) = Some formId"
| "relayed_form (UnlockField formId fieldId uid) = Some formId"
| "relayed_form (UserTyping formId fieldId uname isTyping) = Some formId"
| "relayed_form req = None"

subsection \<open>A form with three participants\<close>

text \<open>
  A number conversion to run the examples with: right on strings of up to 15 decimal
  digits and on strings that are no number at all, and not JavaScript's on any other
  numeral (signed, fractional, padded, with an exponent, hexadecimal). No example below
  updates a number field, so none depends on its values.
\<close>

definition ex_N :: "string \<Rightarrow> string option" where
  "ex_N s = (if s \<noteq> [] \<and> length s \<le> 15 \<and> list_all (\<lambda>c. c \<in> set ''0123456789'') s
             then (case dropWhile (\<lambda>c. c = CHR ''0'') s of [] \<Rightarrow> None | t \<Rightarrow> Some t)
             else None)"

definition ex_form :: form where
  "ex_form = \<lparr>title = ''Survey'', code = ''XK42PQ'', is_active = True,
      form_fields = [\<lparr>f_id = ''email'', f_label = ''Email'', f_type = ''email'', f_options = []\<rparr>,
                     \<lparr>f_id = ''age'', f_label = ''Age'', f_type = ''number'', f_options = []\<rparr>,
                     \<lparr>f_id = ''news'', f_label = ''Newsletter'', f_type = ''checkbox'', f_options = []\<rparr>,
                     \<lparr>f_id = ''notes'', f_label = ''Notes'', f_type = ''textarea'', f_options = []\<rparr>],
      admin_id = ''admin-1''\<rparr>"

definition ex_db :: db where
  "ex_db = \<lparr>up = True, forms = [''ABC123'' \<mapsto> ex_form],
            form_responses = [''ABC123'' \<mapsto> \<lparr>data = Map.empty, contributors = [], last_updated = 0\<rparr>]\<rparr>"

text \<open>
  The client has fetched the form and made it its current form before it emits
  \<^verbatim>\<open>joinForm\<close>.
\<close>

definition ex_client :: client where
  "ex_client = init_client\<lparr>currentForm := Some ex_form\<rparr>"

text \<open>Alice, Bob and Carol have joined form \<^verbatim>\<open>ABC123\<close>, each on a socket of their own.\<close>

definition ex_joined :: system where
  "ex_joined = system_run ex_N (init_system ex_db ex_client)
     [(1, ''s-alice'', JoinForm ''ABC123'' ''u-alice'' ''Alice''),
      (2, ''s-bob'', JoinForm ''ABC123'' ''u-bob'' ''Bob''),
      (3, ''s-carol'', JoinForm ''ABC123'' ''u-carol'' ''Carol'')]"

text \<open>Then Alice puts the focus on the email field and starts typing.\<close>

definition ex_locked :: system where
  "ex_locked = system_run ex_N ex_joined
     [(4, ''s-alice'', LockField ''ABC123'' ''email'' ''u-alice'' ''Alice''),
      (5, ''s-alice'', UserTyping ''ABC123'' ''email'' ''Alice'' True)]"

subsection \<open>Room membership as the spec words it\<close>

text \<open>The connection ids in a form's sessions, in the order of \<^verbatim>\<open>[...sessions.keys()]\<close>.\<close>

definition connections :: "server \<Rightarrow> formId \<Rightarrow> socketId list" where
  "connections st formId = map fst (sessions_of st formId)"

text \<open>Whether \<^verbatim>\<open>joinForm\<close> lets a socket into the form: the query succeeds and the form is active.\<close>

definition joinable :: "server \<Rightarrow> formId \<Rightarrow> bool" where
  "joinable st formId =
     (up (pool st) \<and> (case forms (pool st) formId of None \<Rightarrow> False | Some form \<Rightarrow> is_active form))"

text \<open>
  Following the spec's words, not the code: the snapshot of a room is the connections that
  joined and have not since left or disconnected. A join that is let in adds the
  connection unless it is there already; a leave or a disconnect takes it out.
\<close>

fun spec_members_step :: "bool \<Rightarrow> formId \<Rightarrow> socketId list \<Rightarrow> socketId \<Rightarrow> request \<Rightarrow> socketId list" where
  "spec_members_step ok formId ms sock (JoinForm f uid uname) =
     (if f = formId \<and> ok then (if sock \<in> set ms then ms else ms @ [sock]) else ms)"
| "spec_members_step ok formId ms sock (LeaveForm f uid) =
     (if f = formId then removeAll sock ms else ms)"
| "spec_members_step ok formId ms sock Disconnect = removeAll sock ms"
| "spec_members_step ok formId ms sock req = ms"

fun spec_members ::
  "bool \<Rightarrow> formId \<Rightarrow> socketId list \<Rightarrow> (timestamp \<times> socketId \<times> request) list \<Rightarrow> socketId list" where
  "spec_members ok formId ms [] = ms"
| "spec_members ok formId ms ((now, sock, req) # rest) =
     spec_members ok formId (spec_members_step ok formId ms sock req) rest"

fun is_leave :: "request \<Rightarrow> bool" where
  "is_leave (LeaveForm f uid) = True"
| "is_leave req = False"

lemmas step_defs = system_step_def on_joinForm_def on_updateField_def on_lockField_def
  on_unlockField_def on_userTyping_def on_disconnect_def deliver_def received_def
  room_def sessions_of_def values_of_def init_system_def init_server_def init_client_def
  join_error_def update_error_def field_unknown_def Let_def

lemmas ex_defs = ex_locked_def ex_joined_def ex_client_def ex_db_def ex_form_def

section \<open>Delivery of emits\<close>

lemma deliver_Nil: "deliver rs [] cs = cs"
  by (simp add: deliver_def received_def)

lemma deliver_single:
  "deliver rs [(t, e)] cs = (\<lambda>m. if m \<in> recipients rs t then client_on e (cs m) else cs m)"
  by (auto simp add: deliver_def received_def)

lemma deliver_relay:
  "deliver rs [(ToRoomExcept r sock, e)] cs =
     (\<lambda>m. if m \<in> rs r \<and> m \<noteq> sock then client_on e (cs m) else cs m)"
  by (auto simp add: deliver_single)

lemma system_step_LockField:
  "system_step N now sys sock (LockField formId F uid uname) =
     sys\<lparr>clients := (\<lambda>m. if m \<in> rooms (server sys) (room formId) \<and> m \<noteq> sock
                            then client_on (FieldLocked F uname uid) (clients sys m)
                            else clients sys m)\<rparr>"
  by (simp add: system_step_def on_lockField_def deliver_relay)

lemma system_step_UnlockField:
  "system_step N now sys sock (UnlockField formId F uid) =
     sys\<lparr>clients := (\<lambda>m. if m \<in> rooms (server sys) (room formId) \<and> m \<noteq> sock
                            then client_on (FieldUnlocked F uid) (clients sys m)
                            else clients sys m)\<rparr>"
  by (simp add: system_step_def on_unlockField_def deliver_relay)

lemma system_step_UserTyping:
  "system_step N now sys sock (UserTyping formId F uname b) =
     sys\<lparr>clients := (\<lambda>m. if m \<in> rooms (server sys) (room formId) \<and> m \<noteq> sock
                            then client_on (UserTypingUpdate F uname b) (clients sys m)
                            else clients sys m)\<rparr>"
  by (simp add: system_step_def on_userTyping_def deliver_relay)

lemma ex_joined_rooms:
  "rooms (server ex_joined) (room ''ABC123'') = {''s-alice'', ''s-bob'', ''s-carol''}"
  by (auto simp add: ex_defs step_defs)

lemma ex_locked_server: "server ex_locked = server ex_joined"
  by (simp add: ex_locked_def system_step_LockField system_step_UserTyping)

lemma ex_locked_rooms:
  "rooms (server ex_locked) (room ''ABC123'') = {''s-alice'', ''s-bob'', ''s-carol''}"
  by (simp add: ex_locked_server ex_joined_rooms)

lemma ex_joined_pool: "pool (server ex_joined) = ex_db"
  by (simp add: ex_defs step_defs)

section \<open>Locks\<close>

text \<open>
  C2, as the code has it. The server keeps no lock table and checks nothing on
  \<^verbatim>\<open>lockField\<close>: its state is unchanged, the requester is sent nothing and its own client
  state stays as it is, and every other member of the room records the requester as the
  holder of the field, in place of whoever held it before.
\<close>

theorem lockField_overwrites_holder:
  "server (system_step N now sys sock (LockField formId F uid uname)) = server sys
   \<and> received rs (snd (server_step N now (server sys) sock (LockField formId F uid uname))) sock = []
   \<and> clients (system_step N now sys sock (LockField formId F uid uname)) sock = clients sys sock
   \<and> (\<forall>m. m \<in> rooms (server sys) (room formId) \<and> m \<noteq> sock \<longrightarrow>
         lockedFields (clients (system_step N now sys sock (LockField formId F uid uname)) m)
           = (lockedFields (clients sys m))(F \<mapsto> \<lparr>lockedBy = uname, lockUserId = uid\<rparr>))"
  by (simp add: system_step_LockField on_lockField_def received_def)

theorem lockField_overwrites_holder_witness:
  "''s-carol'' \<in> rooms (server ex_locked) (room ''ABC123'') \<and> ''s-carol'' \<noteq> ''s-bob''
   \<and> lockedFields (clients (system_step ex_N 6 ex_locked ''s-bob''
          (LockField ''ABC123'' ''email'' ''u-bob'' ''Bob'')) ''s-carol'') ''email''
      = Some \<lparr>lockedBy = ''Bob'', lockUserId = ''u-bob''\<rparr>"
proof -
  have m: "''s-carol'' \<in> rooms (server ex_locked) (room ''ABC123'') \<and> ''s-carol'' \<noteq> ''s-bob''"
    by (simp add: ex_locked_rooms)
  from lockField_overwrites_holder [of ex_N 6 ex_locked "''s-bob''" "''ABC123''" "''email''"
      "''u-bob''" "''Bob''"] m
  show ?thesis by simp
qed

text \<open>
  C2 as the spec states it fails: Alice holds the lock on the email field in Carol's lock
  table, Bob asks for the same lock, and afterwards Carol's table names Bob as the holder;
  Bob is sent no event at all.
\<close>

theorem lockField_second_request_counterexample:
  "lockedFields (clients ex_locked ''s-carol'') ''email''
      = Some \<lparr>lockedBy = ''Alice'', lockUserId = ''u-alice''\<rparr>
   \<and> lockedFields (clients (system_step ex_N 6 ex_locked ''s-bob''
          (LockField ''ABC123'' ''email'' ''u-bob'' ''Bob'')) ''s-carol'') ''email''
      = Some \<lparr>lockedBy = ''Bob'', lockUserId = ''u-bob''\<rparr>
   \<and> received (rooms (server ex_locked))
        (snd (server_step ex_N 6 (server ex_locked) ''s-bob''
          (LockField ''ABC123'' ''email'' ''u-bob'' ''Bob''))) ''s-bob'' = []"
  by (simp add: ex_defs step_defs)

text \<open>
  C3, as the code has it. \<^verbatim>\<open>unlockField\<close> is relayed without a check, and the
  \<^verbatim>\<open>fieldUnlocked\<close> handler of the client deletes the entry of the field without
  looking at the user id that comes with the event: every other member of the room drops
  the lock on the field, whoever holds it. The server and the sender are unchanged.
\<close>

theorem unlockField_removes_any_lock:
  "server (system_step N now sys sock (UnlockField formId F uid)) = server sys
   \<and> clients (system_step N now sys sock (UnlockField formId F uid)) sock = clients sys sock
   \<and> (\<forall>m. m \<in> rooms (server sys) (room formId) \<and> m \<noteq> sock \<longrightarrow>
         lockedFields (clients (system_step N now sys sock (UnlockField formId F uid)) m)
           = (lockedFields (clients sys m))(F := None))"
  by (simp add: system_step_UnlockField)

theorem unlockField_removes_any_lock_witness:
  "''s-carol'' \<in> rooms (server ex_locked) (room ''ABC123'') \<and> ''s-carol'' \<noteq> ''s-alice''
   \<and> lockedFields (clients (system_step ex_N 6 ex_locked ''s-alice''
          (UnlockField ''ABC123'' ''email'' ''u-alice'')) ''s-carol'') ''email'' = None"
proof -
  have m: "''s-carol'' \<in> rooms (server ex_locked) (room ''ABC123'') \<and> ''s-carol'' \<noteq> ''s-alice''"
    by (simp add: ex_locked_rooms)
  from unlockField_removes_any_lock [of ex_N 6 ex_locked "''s-alice''" "''ABC123''" "''email''"
      "''u-alice''"] m
  show ?thesis by simp
qed

text \<open>
  C3 as the spec states it fails: Alice holds the lock on the email field, Bob, who does
  not hold it, releases the field, and Alice's lock is gone from Carol's lock table.
\<close>

theorem unlockField_by_non_holder_counterexample:
  "lockedFields (clients ex_locked ''s-carol'') ''email''
      = Some \<lparr>lockedBy = ''Alice'', lockUserId = ''u-alice''\<rparr>
   \<and> lockedFields (clients (system_step ex_N 6 ex_locked ''s-bob''
          (UnlockField ''ABC123'' ''email'' ''u-bob'')) ''s-carol'') ''email'' = None"
  by (simp add: ex_defs step_defs)

section \<open>Typing indicators\<close>

text \<open>
  C4, as the code has it. A typing event with \<^verbatim>\<open>isTyping\<close> true stores the sender's
  name for the field over any earlier one, and an event with \<^verbatim>\<open>isTyping\<close> false
  deletes the entry whatever name it holds. So after X starts typing in F, Y starts
  typing in F and X stops, every member of the room other than X has no typing entry
  for F; the server keeps no typing state.
\<close>

theorem typing_false_clears_any_typer:
  "server (system_run N sys [(t1, sx, UserTyping formId F X True),
        (t2, sy, UserTyping formId F Y True), (t3, sx, UserTyping formId F X False)]) = server sys
   \<and> (\<forall>m. m \<in> rooms (server sys) (room formId) \<and> m \<noteq> sx \<longrightarrow>
        typingUsers (clients (system_run N sys [(t1, sx, UserTyping formId F X True),
          (t2, sy, UserTyping formId F Y True), (t3, sx, UserTyping formId F X False)]) m)
         = (typingUsers (clients sys m))(F := None))
   \<and> typingUsers (client_on (UserTypingUpdate F X True) c) = (typingUsers c)(F \<mapsto> X)
   \<and> typingUsers (client_on (UserTypingUpdate F X False) c) = (typingUsers c)(F := None)"
  by (simp add: system_step_UserTyping)

theorem typing_false_clears_any_typer_witness:
  "''s-bob'' \<in> rooms (server ex_joined) (room ''ABC123'') \<and> ''s-bob'' \<noteq> ''s-alice''
   \<and> typingUsers (clients (system_run ex_N ex_joined
        [(4, ''s-alice'', UserTyping ''ABC123'' ''email'' ''Alice'' True),
         (5, ''s-bob'', UserTyping ''ABC123'' ''email'' ''Bob'' True),
         (6, ''s-alice'', UserTyping ''ABC123'' ''email'' ''Alice'' False)]) ''s-bob'') ''email'' = None"
proof -
  have m: "''s-bob'' \<in> rooms (server ex_joined) (room ''ABC123'') \<and> ''s-bob'' \<noteq> ''s-alice''"
    by (simp add: ex_joined_rooms)
  from typing_false_clears_any_typer [of ex_N ex_joined 4 "''s-alice''" "''ABC123''" "''email''"
      "''Alice''" 5 "''s-bob''" "''Bob''" 6] m
  show ?thesis by simp
qed

text \<open>
  C4 as the spec states it fails: Alice starts typing in the email field, Bob starts
  typing in it, Alice stops, and Carol's typing entry for the field is empty, not Bob.
\<close>

theorem typing_stale_clear_counterexample:
  "typingUsers (clients (system_run ex_N ex_joined
      [(4, ''s-alice'', UserTyping ''ABC123'' ''email'' ''Alice'' True),
       (5, ''s-bob'', UserTyping ''ABC123'' ''email'' ''Bob'' True)]) ''s-carol'') ''email''
     = Some ''Bob''
   \<and> typingUsers (clients (system_run ex_N ex_joined
      [(4, ''s-alice'', UserTyping ''ABC123'' ''email'' ''Alice'' True),
       (5, ''s-bob'', UserTyping ''ABC123'' ''email'' ''Bob'' True),
       (6, ''s-alice'', UserTyping ''ABC123'' ''email'' ''Alice'' False)]) ''s-carol'') ''email''
     = None"
  by (simp add: ex_defs step_defs)


section \<open>Broadcast targets\<close>

lemma disconnect_loop_events:
  "(t, e) \<in> set (snd (disconnect_loop sock as)) \<Longrightarrow>
     (\<exists>u n us. e = UserLeft u n us) \<or> (\<exists>u. e = UnlockAllFieldsForUser u)"
  by (induction sock as rule: disconnect_loop.induct)
     (auto simp add: Let_def split: prod.splits option.splits)

lemma on_updateField_cases:
  "on_updateField N now st sock formId fieldId v uid uname = (st', es) \<Longrightarrow>
     (st' = st \<and> (\<exists>msg. es = [(ToSocket sock, Error msg)]))
   \<or> (\<exists>lbl sv ts. es = [(ToRoom (room formId), FieldUpdated fieldId lbl sv uname ts)])"
  by (auto simp add: on_updateField_def Let_def split: if_splits option.splits)

lemma on_updateField_accepted:
  assumes "up (pool st)" and "forms (pool st) formId = Some form" and "is_active form"
    and "find (\<lambda>f. f_id f = fieldId) (form_fields form) = Some fld"
  shows "snd (on_updateField N now st sock formId fieldId v uid uname)
           = [(ToRoom (room formId),
               FieldUpdated fieldId (f_label fld) (sanitizeValue N (f_type fld) v) uname now)]"
    and "rooms (fst (on_updateField N now st sock formId fieldId v uid uname)) = rooms st"
    and "\<exists>r. form_responses (pool (fst (on_updateField N now st sock formId fieldId v uid uname)))
               formId = Some r
             \<and> data r fieldId = Some (sanitizeValue N (f_type fld) v)"
  using assms by (auto simp add: on_updateField_def Let_def split: option.splits)

lemma ex_find_email:
  "find (\<lambda>f. f_id f = ''email'') (form_fields ex_form)
     = Some \<lparr>f_id = ''email'', f_label = ''Email'', f_type = ''email'', f_options = []\<rparr>"
  by (simp add: ex_form_def)

lemma ex_sanitize_email:
  "sanitizeValue N ''email'' (JString ''Bob@Example.org '') = ''bob@example.org''"
  by code_simp

lemma ex_locked_form:
  "up (pool (server ex_locked)) \<and> forms (pool (server ex_locked)) ''ABC123'' = Some ex_form
   \<and> is_active ex_form"
  by (simp add: ex_locked_server ex_joined_pool ex_db_def ex_form_def)

text \<open>
  C6. Whatever the request and the state, a \<^verbatim>\<open>fieldUpdated\<close> event the server emits comes
  from an \<^verbatim>\<open>updateField\<close> request and goes to every socket in the room of its form,
  the originator not taken out; a \<^verbatim>\<open>fieldLocked\<close>, \<^verbatim>\<open>fieldUnlocked\<close> or typing event
  comes from a lock, unlock or typing request and goes to every socket in the room of its
  form except the sender. Each lock, unlock and typing request emits exactly that one
  event.
\<close>

theorem broadcast_targets:
  "(\<forall>t e. (t, e) \<in> set (snd (server_step N now st sock req)) \<longrightarrow>
      (is_fieldUpdated e \<longrightarrow>
         (\<exists>formId fieldId v uid uname. req = UpdateField formId fieldId v uid uname
            \<and> recipients rs t = rs (room formId)))
    \<and> (is_relayed e \<longrightarrow>
         (\<exists>formId. relayed_form req = Some formId
            \<and> recipients rs t = rs (room formId) - {sock})))
   \<and> snd (server_step N now st sock (LockField formId fieldId uid uname))
        = [(ToRoomExcept (room formId) sock, FieldLocked fieldId uname uid)]
   \<and> snd (server_step N now st sock (UnlockField formId fieldId uid))
        = [(ToRoomExcept (room formId) sock, FieldUnlocked fieldId uid)]
   \<and> snd (server_step N now st sock (UserTyping formId fieldId uname b))
        = [(ToRoomExcept (room formId) sock, UserTypingUpdate fieldId uname b)]"
proof -
  have 1: "\<forall>t e. (t, e) \<in> set (snd (server_step N now st sock req)) \<longrightarrow>
      (is_fieldUpdated e \<longrightarrow>
         (\<exists>formId fieldId v uid uname. req = UpdateField formId fieldId v uid uname
            \<and> recipients rs t = rs (room formId)))
    \<and> (is_relayed e \<longrightarrow>
         (\<exists>formId. relayed_form req = Some formId
            \<and> recipients rs t = rs (room formId) - {sock}))"
  proof (cases req)
    case (JoinForm formId uid uname)
    then show ?thesis
      by (auto simp add: on_joinForm_def Let_def split: if_splits option.splits)
  next
    case (UpdateField formId fieldId v uid uname)
    obtain st' es where r: "on_updateField N now st sock formId fieldId v uid uname = (st', es)"
      by (cases "on_updateField N now st sock formId fieldId v uid uname")
    from on_updateField_cases [OF r] show ?thesis
      using UpdateField r by auto
  next
    case Disconnect
    have "\<not> is_fieldUpdated e \<and> \<not> is_relayed e"
      if "(t, e) \<in> set (snd (disconnect_loop sock (activeSessions st)))" for t e
      using disconnect_loop_events [OF that] by auto
    then show ?thesis
      using Disconnect by (auto simp add: on_disconnect_def split: prod.splits)
  qed (simp_all add: on_lockField_def on_unlockField_def on_userTyping_def)
  show ?thesis
    using 1 by (simp add: on_lockField_def on_unlockField_def on_userTyping_def)
qed

theorem broadcast_targets_witness:
  "(ToRoom (room ''ABC123''), FieldUpdated ''email'' ''Email'' ''bob@example.org'' ''Bob'' 6)
      \<in> set (snd (server_step ex_N 6 (server ex_locked) ''s-bob''
            (UpdateField ''ABC123'' ''email'' (JString ''Bob@Example.org '') ''u-bob'' ''Bob'')))
   \<and> is_fieldUpdated (FieldUpdated ''email'' ''Email'' ''bob@example.org'' ''Bob'' 6)
   \<and> recipients (rooms (server ex_locked)) (ToRoom (room ''ABC123''))
        = {''s-alice'', ''s-bob'', ''s-carol''}
   \<and> (ToRoomExcept (room ''ABC123'') ''s-bob'', FieldLocked ''email'' ''Bob'' ''u-bob'')
      \<in> set (snd (server_step ex_N 6 (server ex_locked) ''s-bob''
            (LockField ''ABC123'' ''email'' ''u-bob'' ''Bob'')))
   \<and> is_relayed (FieldLocked ''email'' ''Bob'' ''u-bob'')
   \<and> recipients (rooms (server ex_locked)) (ToRoomExcept (room ''ABC123'') ''s-bob'')
        = {''s-alice'', ''s-carol''}"
proof -
  have u: "(ToRoom (room ''ABC123''), FieldUpdated ''email'' ''Email'' ''bob@example.org'' ''Bob'' 6)
      \<in> set (snd (server_step ex_N 6 (server ex_locked) ''s-bob''
            (UpdateField ''ABC123'' ''email'' (JString ''Bob@Example.org '') ''u-bob'' ''Bob'')))"
    using on_updateField_accepted(1) [of "server ex_locked" "''ABC123''" ex_form "''email''" _ ex_N 6
        "''s-bob''" "JString ''Bob@Example.org ''" "''u-bob''" "''Bob''"]
      ex_locked_form ex_find_email ex_sanitize_email
    by simp
  have l: "(ToRoomExcept (room ''ABC123'') ''s-bob'', FieldLocked ''email'' ''Bob'' ''u-bob'')
      \<in> set (snd (server_step ex_N 6 (server ex_locked) ''s-bob''
            (LockField ''ABC123'' ''email'' ''u-bob'' ''Bob'')))"
    by (simp add: on_lockField_def)
  from broadcast_targets [of ex_N 6 "server ex_locked" "''s-bob''"
      "UpdateField ''ABC123'' ''email'' (JString ''Bob@Example.org '') ''u-bob'' ''Bob''"
      "rooms (server ex_locked)"] u
    broadcast_targets [of ex_N 6 "server ex_locked" "''s-bob''"
      "LockField ''ABC123'' ''email'' ''u-bob'' ''Bob''" "rooms (server ex_locked)"] l
  show ?thesis
    by (auto simp add: ex_locked_rooms)
qed

section \<open>Updates of a field\<close>

text \<open>
  C8. When the form is there and active and its schema has no field of the given id, the
  \<^verbatim>\<open>updateField\<close> handler leaves the server state as it is (the stored response data and
  the membership of the rooms with it) and emits one event, the error
  \<^verbatim>\<open>Field not found in form definition.\<close>, to the originating socket alone; no
  \<^verbatim>\<open>fieldUpdated\<close> is emitted, and no client state changes.
\<close>

theorem updateField_unknown_field:
  assumes "up (pool (server sys))" and "forms (pool (server sys)) formId = Some form"
    and "is_active form" and "fieldId \<notin> f_id ` set (form_fields form)"
  shows "server_step N now (server sys) sock (UpdateField formId fieldId v uid uname)
           = (server sys, [(ToSocket sock, Error field_unknown)])
       \<and> received rs [(ToSocket sock, Error field_unknown)] m
           = (if m = sock then [Error field_unknown] else [])
       \<and> system_step N now sys sock (UpdateField formId fieldId v uid uname) = sys"
proof -
  have f: "find (\<lambda>f. f_id f = fieldId) (form_fields form) = None"
    using assms(4) by (auto simp add: find_None_iff)
  have s: "server_step N now (server sys) sock (UpdateField formId fieldId v uid uname)
           = (server sys, [(ToSocket sock, Error field_unknown)])"
    using assms(1-3) f by (simp add: on_updateField_def)
  have d: "deliver (rooms (server sys)) [(ToSocket sock, Error field_unknown)] (clients sys)
             = clients sys"
    by (auto simp add: deliver_single)
  show ?thesis
    using s d by (simp add: system_step_def received_def)
qed

theorem updateField_unknown_field_witness:
  "up (pool (server ex_locked)) \<and> forms (pool (server ex_locked)) ''ABC123'' = Some ex_form
   \<and> is_active ex_form \<and> ''phone'' \<notin> f_id ` set (form_fields ex_form)
   \<and> server_step ex_N 6 (server ex_locked) ''s-bob''
        (UpdateField ''ABC123'' ''phone'' (JString ''555'') ''u-bob'' ''Bob'')
      = (server ex_locked, [(ToSocket ''s-bob'', Error field_unknown)])
   \<and> system_step ex_N 6 ex_locked ''s-bob''
        (UpdateField ''ABC123'' ''phone'' (JString ''555'') ''u-bob'' ''Bob'') = ex_locked"
proof -
  have n: "''phone'' \<notin> f_id ` set (form_fields ex_form)"
    by (simp add: ex_form_def)
  from updateField_unknown_field [of ex_locked "''ABC123''" ex_form "''phone''" ex_N 6 "''s-bob''"
      "JString ''555''" "''u-bob''" "''Bob''"] ex_locked_form n
  show ?thesis by simp
qed

lemma client_on_with_locks:
  "is_fieldUpdated e \<or> (\<exists>msg. e = Error msg) \<Longrightarrow>
     client_on e (c\<lparr>lockedFields := l\<rparr>) = (client_on e c)\<lparr>lockedFields := l\<rparr>"
  by (cases e) auto

lemma deliver_with_locks:
  assumes "is_fieldUpdated e \<or> (\<exists>msg. e = Error msg)"
  shows "deliver rs [(t, e)] (\<lambda>s. (cs s)\<lparr>lockedFields := L s\<rparr>)
           = (\<lambda>s. (deliver rs [(t, e)] cs s)\<lparr>lockedFields := L s\<rparr>)"
  using assms by (auto simp add: deliver_single client_on_with_locks)

lemma updateField_with_locks:
  "system_step N now (with_locks L sys) sock (UpdateField formId fieldId v uid uname)
     = with_locks L (system_step N now sys sock (UpdateField formId fieldId v uid uname))"
proof -
  obtain st' es where r:
    "on_updateField N now (server sys) sock formId fieldId v uid uname = (st', es)"
    by (cases "on_updateField N now (server sys) sock formId fieldId v uid uname")
  from on_updateField_cases [OF r] obtain t e where
    es: "es = [(t, e)]" and e: "is_fieldUpdated e \<or> (\<exists>msg. e = Error msg)"
    by auto
  show ?thesis
    using r es deliver_with_locks [OF e]
    by (simp add: system_step_def with_locks_def)
qed

text \<open>
  C5. Locks live in the lock tables of the clients only. For every request to update a
  field, replacing every client's lock table by any other one before the request gives
  the same server state and the same client states as the request on the original system,
  the lock tables apart: no lock is read. And when the database answers, the form is
  active and the field is in its schema, the sanitized value is stored, and
  \<^verbatim>\<open>fieldUpdated\<close> goes to the whole room, where every member takes the value over.
\<close>

theorem updateField_ignores_locks:
  "system_step N now (with_locks L sys) sock (UpdateField formId fieldId v uid uname)
     = with_locks L (system_step N now sys sock (UpdateField formId fieldId v uid uname))
   \<and> (up (pool (server sys)) \<and> forms (pool (server sys)) formId = Some form \<and> is_active form
        \<and> find (\<lambda>f. f_id f = fieldId) (form_fields form) = Some fld \<longrightarrow>
       snd (server_step N now (server (with_locks L sys)) sock
                (UpdateField formId fieldId v uid uname))
           = [(ToRoom (room formId),
               FieldUpdated fieldId (f_label fld) (sanitizeValue N (f_type fld) v) uname now)]
       \<and> (\<exists>r. form_responses (pool (server (system_step N now (with_locks L sys) sock
                    (UpdateField formId fieldId v uid uname)))) formId = Some r
              \<and> data r fieldId = Some (sanitizeValue N (f_type fld) v))
       \<and> (\<forall>m. m \<in> rooms (server sys) (room formId) \<longrightarrow>
             formResponse (clients (system_step N now (with_locks L sys) sock
                    (UpdateField formId fieldId v uid uname)) m) fieldId
               = (if fieldId = ''lastUpdated'' then Some (Stamp now)
                  else Some (Value (sanitizeValue N (f_type fld) v)))))"
proof (intro conjI impI)
  show "system_step N now (with_locks L sys) sock (UpdateField formId fieldId v uid uname)
     = with_locks L (system_step N now sys sock (UpdateField formId fieldId v uid uname))"
    by (rule updateField_with_locks)
next
  assume a: "up (pool (server sys)) \<and> forms (pool (server sys)) formId = Some form
    \<and> is_active form \<and> find (\<lambda>f. f_id f = fieldId) (form_fields form) = Some fld"
  have sv: "server (with_locks L sys) = server sys"
    by (simp add: with_locks_def)
  note acc = on_updateField_accepted [of "server sys" formId form fieldId fld N now sock v uid uname]
  have srv: "server (system_step N now (with_locks L sys) sock
                (UpdateField formId fieldId v uid uname))
              = fst (on_updateField N now (server sys) sock formId fieldId v uid uname)"
    by (simp add: system_step_def sv case_prod_beta)
  have cl: "clients (system_step N now (with_locks L sys) sock
                (UpdateField formId fieldId v uid uname))
              = deliver (rooms (server sys))
                  [(ToRoom (room formId),
                    FieldUpdated fieldId (f_label fld) (sanitizeValue N (f_type fld) v) uname now)]
                  (clients (with_locks L sys))"
    using a acc(1,2) by (simp add: system_step_def sv case_prod_beta)
  show "snd (server_step N now (server (with_locks L sys)) sock
                (UpdateField formId fieldId v uid uname))
           = [(ToRoom (room formId),
               FieldUpdated fieldId (f_label fld) (sanitizeValue N (f_type fld) v) uname now)]"
    using a acc(1) by (simp add: sv)
  show "\<exists>r. form_responses (pool (server (system_step N now (with_locks L sys) sock
                    (UpdateField formId fieldId v uid uname)))) formId = Some r
              \<and> data r fieldId = Some (sanitizeValue N (f_type fld) v)"
    using a acc(3) by (simp add: srv)
  show "\<forall>m. m \<in> rooms (server sys) (room formId) \<longrightarrow>
             formResponse (clients (system_step N now (with_locks L sys) sock
                    (UpdateField formId fieldId v uid uname)) m) fieldId
               = (if fieldId = ''lastUpdated'' then Some (Stamp now)
                  else Some (Value (sanitizeValue N (f_type fld) v)))"
    by (simp add: cl deliver_single)
qed

theorem updateField_ignores_locks_witness:
  "up (pool (server ex_locked)) \<and> forms (pool (server ex_locked)) ''ABC123'' = Some ex_form
   \<and> is_active ex_form
   \<and> find (\<lambda>f. f_id f = ''email'') (form_fields ex_form)
        = Some \<lparr>f_id = ''email'', f_label = ''Email'', f_type = ''email'', f_options = []\<rparr>
   \<and> lockedFields (clients ex_locked ''s-bob'') ''email''
        = Some \<lparr>lockedBy = ''Alice'', lockUserId = ''u-alice''\<rparr>
   \<and> system_step ex_N 6 (with_locks (\<lambda>s. Map.empty) ex_locked) ''s-bob''
        (UpdateField ''ABC123'' ''email'' (JString ''Bob@Example.org '') ''u-bob'' ''Bob'')
      = with_locks (\<lambda>s. Map.empty) (system_step ex_N 6 ex_locked ''s-bob''
          (UpdateField ''ABC123'' ''email'' (JString ''Bob@Example.org '') ''u-bob'' ''Bob''))
   \<and> snd (server_step ex_N 6 (server ex_locked) ''s-bob''
        (UpdateField ''ABC123'' ''email'' (JString ''Bob@Example.org '') ''u-bob'' ''Bob''))
      = [(ToRoom (room ''ABC123''), FieldUpdated ''email'' ''Email'' ''bob@example.org'' ''Bob'' 6)]"
proof -
  have l: "lockedFields (clients ex_locked ''s-bob'') ''email''
        = Some \<lparr>lockedBy = ''Alice'', lockUserId = ''u-alice''\<rparr>"
    by (simp add: ex_defs step_defs)
  have w: "with_locks (\<lambda>s. lockedFields (clients ex_locked s)) ex_locked = ex_locked"
    by (simp add: with_locks_def)
  from updateField_ignores_locks [of ex_N 6 "\<lambda>s. Map.empty" ex_locked "''s-bob''" "''ABC123''"
      "''email''" "JString ''Bob@Example.org ''" "''u-bob''" "''Bob''" ex_form]
    updateField_ignores_locks [of ex_N 6 "\<lambda>s. lockedFields (clients ex_locked s)" ex_locked
      "''s-bob''" "''ABC123''" "''email''" "JString ''Bob@Example.org ''" "''u-bob''" "''Bob''"
      ex_form]
    ex_locked_form ex_find_email ex_sanitize_email l w
  show ?thesis by simp
qed

section \<open>Change of a form's structure\<close>

lemma client_on_FormStructureUpdated_locks:
  "lockedFields (client_on (FormStructureUpdated fs) c) = lockedFields c
   \<and> typingUsers (client_on (FormStructureUpdated fs) c) = typingUsers c"
  by (simp split: option.splits)

lemma put_form_fields_emits:
  "snd (fst (put_form_fields now st formId fs adminId)) = []
   \<or> snd (fst (put_form_fields now st formId fs adminId))
        = [(ToRoom (room formId), FormStructureUpdated fs)]"
  by (simp add: put_form_fields_def Let_def split: option.splits)

text \<open>
  C9, as the code has it. When the fields of a form are replaced, the room is sent
  \<^verbatim>\<open>formStructureUpdated\<close>; a client that has a current form replaces the field list
  of that form and nothing else. The lock table and the typing entries of every client
  stay exactly as they were, entries for fields that are gone included.
\<close>

theorem structure_change_keeps_locks:
  "lockedFields (clients (system_put_form_fields now sys formId fs adminId) m)
      = lockedFields (clients sys m)
   \<and> typingUsers (clients (system_put_form_fields now sys formId fs adminId) m)
      = typingUsers (clients sys m)
   \<and> client_on (FormStructureUpdated fs) c
      = (case currentForm c of None \<Rightarrow> c
         | Some form \<Rightarrow> c\<lparr>currentForm := Some (form\<lparr>form_fields := fs\<rparr>)\<rparr>)"
proof -
  have "lockedFields (deliver rs es (clients sys) m) = lockedFields (clients sys m)
        \<and> typingUsers (deliver rs es (clients sys) m) = typingUsers (clients sys m)"
    if "es = [] \<or> es = [(ToRoom (room formId), FormStructureUpdated fs)]" for rs es
    using that client_on_FormStructureUpdated_locks [of fs "clients sys m"]
    by (auto simp add: deliver_Nil deliver_single)
  from this [OF put_form_fields_emits [of now "server sys" formId fs adminId]]
  show ?thesis
    by (simp add: system_put_form_fields_def case_prod_beta)
qed

theorem structure_change_keeps_locks_witness:
  "lockedFields (clients (system_put_form_fields 6 ex_locked ''ABC123''
        [\<lparr>f_id = ''notes'', f_label = ''Notes'', f_type = ''textarea'', f_options = []\<rparr>]
        ''admin-1'') ''s-carol'')
     = lockedFields (clients ex_locked ''s-carol'')
   \<and> typingUsers (clients (system_put_form_fields 6 ex_locked ''ABC123''
        [\<lparr>f_id = ''notes'', f_label = ''Notes'', f_type = ''textarea'', f_options = []\<rparr>]
        ''admin-1'') ''s-carol'')
     = typingUsers (clients ex_locked ''s-carol'')"
  using structure_change_keeps_locks [of 6 ex_locked "''ABC123''"
      "[\<lparr>f_id = ''notes'', f_label = ''Notes'', f_type = ''textarea'', f_options = []\<rparr>]"
      "''admin-1''" "''s-carol''"]
  by simp

text \<open>
  C9 as the spec states it fails: Carol's client holds Alice's lock and typing entry for
  the email field; the admin replaces the fields by a single notes field; the request
  succeeds, Carol's current form now has the notes field only, and both entries for the
  email field are still there.
\<close>

theorem structure_change_counterexample:
  "snd (put_form_fields 6 (server ex_locked) ''ABC123''
        [\<lparr>f_id = ''notes'', f_label = ''Notes'', f_type = ''textarea'', f_options = []\<rparr>]
        ''admin-1'') = 200
   \<and> map_option (map f_id \<circ> form_fields)
        (currentForm (clients (system_put_form_fields 6 ex_locked ''ABC123''
          [\<lparr>f_id = ''notes'', f_label = ''Notes'', f_type = ''textarea'', f_options = []\<rparr>]
          ''admin-1'') ''s-carol'')) = Some [''notes'']
   \<and> lockedFields (clients (system_put_form_fields 6 ex_locked ''ABC123''
        [\<lparr>f_id = ''notes'', f_label = ''Notes'', f_type = ''textarea'', f_options = []\<rparr>]
        ''admin-1'') ''s-carol'') ''email''
      = Some \<lparr>lockedBy = ''Alice'', lockUserId = ''u-alice''\<rparr>
   \<and> typingUsers (clients (system_put_form_fields 6 ex_locked ''ABC123''
        [\<lparr>f_id = ''notes'', f_label = ''Notes'', f_type = ''textarea'', f_options = []\<rparr>]
        ''admin-1'') ''s-carol'') ''email'' = Some ''Alice''"
  by (simp add: ex_defs step_defs system_put_form_fields_def put_form_fields_def
      validateField_def validTypes_def)


section \<open>Sessions\<close>

lemma disconnect_loop_sessions:
  "fst (disconnect_loop sock as) = map (\<lambda>(f, ss). (f, AList.delete sock ss)) as"
proof (induction sock as rule: disconnect_loop.induct)
  case (1 sock)
  then show ?case by simp
next
  case (2 sock formId ss rest)
  have "AList.delete sock ss = ss" if "map_of ss sock = None"
    using that by (simp add: map_of_eq_None_iff)
  with 2 show ?case
    by (auto simp add: Let_def split: prod.splits option.splits)
qed




lemma sessions_of_disconnect:
  "sessions_of (fst (on_disconnect st sock)) formId = AList.delete sock (sessions_of st formId)"
  by (simp add: on_disconnect_def sessions_of_def case_prod_beta disconnect_loop_sessions
      map_of_map split: option.splits)









lemma activeSessions_updateField:
  "activeSessions (fst (on_updateField N now st sock formId fieldId v uid uname)) = activeSessions st"
  by (simp add: on_updateField_def Let_def split: option.splits)





section \<open>Disconnect\<close>





section \<open>Snapshot of a room\<close>

lemma sessions_of_update:
  "sessions_of (st\<lparr>activeSessions := AList.update f ss (activeSessions st), rooms := r\<rparr>) formId
     = (if f = formId then ss else sessions_of st formId)"
  by (simp add: sessions_of_def update_conv')

lemma connections_joinForm:
  "connections (fst (on_joinForm now st sock f uid uname)) formId
     = spec_members_step (joinable st f) formId (connections st formId) sock (JoinForm f uid uname)"
  by (auto simp add: on_joinForm_def connections_def joinable_def Let_def sessions_of_update
      update_keys split: option.splits)

lemma connections_disconnect:
  "connections (fst (on_disconnect st sock)) formId = removeAll sock (connections st formId)"
  by (simp add: connections_def sessions_of_disconnect delete_keys)

lemma connections_updateField:
  "connections (fst (on_updateField N now st sock f fieldId v uid uname)) formId
     = connections st formId"
  using activeSessions_updateField [of N now st sock f fieldId v uid uname]
  by (simp add: connections_def sessions_of_def)

lemma joinable_step: "joinable (fst (server_step N now st sock req)) formId = joinable st formId"
proof (cases req)
  case (JoinForm f uid uname)
  then show ?thesis
    by (simp add: on_joinForm_def joinable_def Let_def split: option.splits)
next
  case (UpdateField f fieldId v uid uname)
  then show ?thesis
    by (simp add: on_updateField_def joinable_def Let_def split: option.splits)
next
  case Disconnect
  then show ?thesis
    by (simp add: on_disconnect_def joinable_def case_prod_beta)
qed (simp_all add: on_lockField_def on_unlockField_def on_userTyping_def)

text \<open>
  Apart from \<^verbatim>\<open>leaveForm\<close>, every request moves the connections of a form as the spec
  has it; a second join of a socket keeps its place and replaces its session.
\<close>

lemma connections_step:
  "\<not> is_leave req \<Longrightarrow>
     connections (fst (server_step N now st sock req)) formId
       = spec_members_step (joinable st formId) formId (connections st formId) sock req"
proof (cases req)
  case (JoinForm f uid uname)
  then show ?thesis
    by (auto simp add: connections_joinForm)
qed (simp_all add: connections_disconnect connections_updateField on_lockField_def
    on_unlockField_def on_userTyping_def)

lemma connections_run:
  "\<forall>ev\<in>set evs. \<not> is_leave (snd (snd ev)) \<Longrightarrow>
     connections (server (system_run N sys evs)) formId
       = spec_members (joinable (server sys) formId) formId (connections (server sys) formId) evs"
proof (induction evs arbitrary: sys)
  case Nil
  then show ?case by simp
next
  case (Cons ev evs)
  obtain now sock req where ev: "ev = (now, sock, req)"
    by (cases ev)
  let ?sys = "system_step N now sys sock req"
  have s: "server ?sys = fst (server_step N now (server sys) sock req)"
    by (simp add: system_step_def case_prod_beta)
  have r: "\<not> is_leave req"
    using Cons.prems by (simp add: ev)
  have "connections (server (system_run N ?sys evs)) formId
       = spec_members (joinable (server ?sys) formId) formId (connections (server ?sys) formId) evs"
    using Cons.prems by (intro Cons.IH) simp
  then show ?case
    by (simp add: ev s joinable_step connections_step [OF r])
qed

lemma spec_members_step_distinct:
  "distinct ms \<Longrightarrow> distinct (spec_members_step ok formId ms sock req)"
  by (cases req) (simp_all add: distinct_removeAll)

lemma connections_distinct:
  assumes "distinct (connections st formId)"
  shows "distinct (connections (fst (server_step N now st sock req)) formId)"
proof (cases "is_leave req")
  case True
  then show ?thesis
    using assms by (cases req) simp_all
next
  case False
  show ?thesis
    using assms by (simp add: connections_step [OF False] spec_members_step_distinct)
qed

lemma rejoin_replaces_session:
  assumes "joinable st formId"
  shows "map_of (sessions_of (fst (on_joinForm now st sock formId uid uname)) formId) sock
           = Some \<lparr>userId = uid, userName = uname, joinedAt = now, socketId = sock\<rparr>"
    and "sock \<in> set (connections st formId) \<Longrightarrow>
           connections (fst (on_joinForm now st sock formId uid uname)) formId
             = connections st formId"
  using assms
  by (auto simp add: on_joinForm_def joinable_def Let_def sessions_of_update update_conv'
      connections_def update_keys split: option.splits)

text \<open>
  C7 does not hold of the code. The client emits \<^verbatim>\<open>leaveForm\<close> when a participant
  leaves a form, and the server has no listener for it: the session stays in the room's
  snapshot until the socket disconnects. Alice, Bob and Carol have joined; Alice leaves;
  the spec's snapshot is Bob and Carol, the server's is still all three, nobody is told,
  and Alice's socket is still in the room.
\<close>

theorem leaveForm_keeps_session:
  "connections (server ex_joined) ''ABC123'' = [''s-alice'', ''s-bob'', ''s-carol'']
   \<and> spec_members True ''ABC123'' [''s-alice'', ''s-bob'', ''s-carol'']
        [(4, ''s-alice'', LeaveForm ''ABC123'' ''u-alice'')] = [''s-bob'', ''s-carol'']
   \<and> connections (server (system_run ex_N ex_joined
        [(4, ''s-alice'', LeaveForm ''ABC123'' ''u-alice'')])) ''ABC123''
      = [''s-alice'', ''s-bob'', ''s-carol'']
   \<and> snd (server_step ex_N 4 (server ex_joined) ''s-alice'' (LeaveForm ''ABC123'' ''u-alice'')) = []
   \<and> ''s-alice'' \<in> rooms (server (system_run ex_N ex_joined
        [(4, ''s-alice'', LeaveForm ''ABC123'' ''u-alice'')])) (room ''ABC123'')"
proof -
  have c: "connections (server ex_joined) ''ABC123'' = [''s-alice'', ''s-bob'', ''s-carol'']"
    by (simp add: connections_def ex_defs step_defs)
  have s: "system_step ex_N 4 ex_joined ''s-alice'' (LeaveForm ''ABC123'' ''u-alice'') = ex_joined"
    by (simp add: system_step_def deliver_Nil)
  show ?thesis
    by (simp add: c s ex_joined_rooms)
qed


end
